theory Spec2Isabelle
  imports Main
begin

section \<open>Strings as the handlers use them\<close>

text \<open>
  JavaScript strings are modelled as \<^typ>\<open>string\<close>.  The string operations of the
  handlers that matter are \<open>toLowerCase\<close>, \<open>startsWith\<close>, \<open>includes\<close> and \<open>trim\<close>.
  \<open>toLowerCase\<close> is modelled
  on the ASCII letters (every status word and host name of the code base is ASCII); other
  characters are left as they are.
\<close>

definition lower_char :: "char \<Rightarrow> char" where
  "lower_char c =
     (case map_of (zip ''ABCDEFGHIJKLMNOPQRSTUVWXYZ'' ''abcdefghijklmnopqrstuvwxyz'') c of
        None \<Rightarrow> c
      | Some d \<Rightarrow> d)"

definition toLowerCase :: "string \<Rightarrow> string" where
  "toLowerCase s = map lower_char s"

fun starts_with :: "string \<Rightarrow> string \<Rightarrow> bool" where
  "starts_with s [] = True"
| "starts_with [] (d # ds) = False"
| "starts_with (c # cs) (d # ds) = (c = d \<and> starts_with cs ds)"

text \<open>\<open>str_includes s d\<close> is JavaScript's \<open>s.includes(d)\<close>: \<open>d\<close> occurs in \<open>s\<close> as a substring.\<close>

fun str_includes :: "string \<Rightarrow> string \<Rightarrow> bool" where
  "str_includes [] d = (d = [])"
| "str_includes (c # cs) d = (starts_with (c # cs) d \<or> str_includes cs d)"

definition is_space :: "char \<Rightarrow> bool" where
  "is_space c = (c = CHR '' '' \<or> c = CHR 0x09 \<or> c = CHR 0x0A \<or> c = CHR 0x0D)"

definition trim :: "string \<Rightarrow> string" where
  "trim s = rev (dropWhile is_space (rev (dropWhile is_space s)))"

text \<open>\<open>x || ''\<close> on a field that may be missing.\<close>

definition or_empty :: "string option \<Rightarrow> string" where
  "or_empty s = (case s of None \<Rightarrow> [] | Some x \<Rightarrow> x)"

section \<open>Tasks, links and the persisted link-result write\<close>

type_synonym log = "string \<times> string"
type_synonym button = "string \<times> string"

text \<open>
  One element of a task document's \<open>links\<close> array.  A field that a document may lack is an
  option; timestamps are milliseconds since the epoch.
\<close>

record link =
  l_id :: int
  l_name :: string
  l_link :: string
  l_status :: "string option"
  l_finalLink :: "string option"
  l_error :: "string option"
  l_logs :: "log list"
  l_best_button_name :: "string option"
  l_all_available_buttons :: "button list"
  l_solvedAt :: "int option"

text \<open>A document of the \<open>scraping_tasks\<close> collection.\<close>

record task =
  t_url :: string
  t_status :: string
  t_links :: "link list"
  t_extractedBy :: "string option"
  t_error :: "string option"
  t_createdAt :: "int option"
  t_processingStartedAt :: "int option"
  t_completedAt :: "int option"
  t_recoveredAt :: "int option"
  t_recoveryReason :: "string option"

type_synonym tasks_db = "string \<rightharpoonup> task"

text \<open>The \<open>result\<close> argument of \<open>saveResultToFirestore\<close>; every field is optional.\<close>

record solve_result =
  r_status :: "string option"
  r_finalLink :: "string option"
  r_error :: "string option"
  r_logs :: "log list option"
  r_best_button_name :: "string option"
  r_all_available_buttons :: "button list option"

text \<open>JavaScript's \<open>a ?? b\<close> on an optional value.\<close>

definition nullish :: "'a option \<Rightarrow> 'a option \<Rightarrow> 'a option" where
  "nullish a b = (case a of None \<Rightarrow> b | Some x \<Rightarrow> Some x)"

text \<open>The object written over a matching link (the body of the \<open>map\<close> callback).\<close>

definition write_link :: "solve_result \<Rightarrow> int \<Rightarrow> link \<Rightarrow> link" where
  "write_link res now l =
     l\<lparr> l_finalLink := nullish (r_finalLink res) (l_finalLink l),
        l_status := Some (case r_status res of None \<Rightarrow> ''error'' | Some s \<Rightarrow> s),
        l_error := r_error res,
        l_logs := (case r_logs res of None \<Rightarrow> [] | Some g \<Rightarrow> g),
        l_best_button_name := r_best_button_name res,
        l_all_available_buttons := (case r_all_available_buttons res of None \<Rightarrow> [] | Some b \<Rightarrow> b),
        l_solvedAt := Some now \<rparr>"

text \<open>
  \<open>saveResultToFirestore\<close>: one read-modify-write transaction on the task document.  A
  missing document ends the transaction without a write.  \<open>extractedBy\<close> is an option
  because the cache-hit call of \<open>processLink\<close> omits the argument, and the store is
  configured to drop undefined properties.
\<close>

definition saveResultToFirestore ::
  "string \<Rightarrow> int \<Rightarrow> string \<Rightarrow> solve_result \<Rightarrow> string option \<Rightarrow> int \<Rightarrow> tasks_db \<Rightarrow> tasks_db" where
  "saveResultToFirestore taskId lid linkUrl res extractedBy now db =
     (case db taskId of
        None \<Rightarrow> db
      | Some t \<Rightarrow>
          (let updated = map (\<lambda>l. if l_id l = lid \<or> l_link l = linkUrl
                                   then write_link res now l else l) (t_links t);
               allDone = list_all (\<lambda>l. toLowerCase (or_empty (l_status l))
                                        \<in> set [''done'', ''success'', ''error'', ''failed'']) updated;
               anySuccess = list_ex (\<lambda>l. toLowerCase (or_empty (l_status l))
                                        \<in> set [''done'', ''success'']) updated
           in db(taskId \<mapsto> t\<lparr> t_links := updated,
                                t_status := (if allDone then (if anySuccess then ''completed'' else ''failed'')
                                             else ''processing''),
                                t_extractedBy := nullish extractedBy (t_extractedBy t),
                                t_completedAt := (if allDone then Some now else t_completedAt t) \<rparr>)))"

text \<open>The reading of a link's state that the data model's invariant speaks of.\<close>

definition link_terminal :: "link \<Rightarrow> bool" where
  "link_terminal l =
     (let s = toLowerCase (or_empty (l_status l))
      in s = ''done'' \<or> s = ''success'' \<or> s = ''error'' \<or> s = ''failed'')"

definition link_succeeded :: "link \<Rightarrow> bool" where
  "link_succeeded l =
     (let s = toLowerCase (or_empty (l_status l)) in s = ''done'' \<or> s = ''success'')"

section \<open>Configuration constants\<close>



definition HUBCLOUD_TLDS :: "string list" where
  "HUBCLOUD_TLDS = [''.foo'', ''.fans'', ''.dev'', ''.cloud'', ''.icu'', ''.lol'', ''.art'', ''.in'', ''.store'']"

definition HUBDRIVE_TLDS :: "string list" where
  "HUBDRIVE_TLDS = [''.space'', ''.pro'', ''.in'']"

definition LINK_TIMEOUT_MS :: int where "LINK_TIMEOUT_MS = 20000"
definition HTTP_522_MAX_RETRIES :: nat where "HTTP_522_MAX_RETRIES = 2"
definition STUCK_TASK_THRESHOLD_MS :: int where "STUCK_TASK_THRESHOLD_MS = 10 * 60 * 1000"
definition MAX_CRON_RETRIES :: nat where "MAX_CRON_RETRIES = 3"
definition CACHE_EXPIRY_MS :: int where "CACHE_EXPIRY_MS = 24 * 60 * 60 * 1000"


section \<open>The link cache\<close>

text \<open>A document of the \<open>link_cache\<close> collection.\<close>

record cached_link =
  c_originalUrl :: string
  c_finalLink :: string
  c_solverUsed :: string
  c_resolvedAt :: int
  c_expiresAt :: int
  c_hitCount :: nat
  c_status :: string
  c_best_button_name :: "string option"
  c_all_available_buttons :: "button list"
  c_lastHitAt :: "int option"
  c_brokenAt :: "int option"

type_synonym cache_db = "string \<rightharpoonup> cached_link"

text \<open>
  The document key is the MD5 digest of the lower-cased, trimmed url.  The digest function
  is a parameter \<open>md5\<close> of the model; nothing is assumed about it.  The document store is
  modelled as reliable, so the \<open>catch\<close> branches that swallow a failed read or write are
  not reached.
\<close>

definition hashUrl :: "(string \<Rightarrow> string) \<Rightarrow> string \<Rightarrow> string" where
  "hashUrl md5 url = md5 (trim (toLowerCase url))"

definition getCachedLink ::
  "(string \<Rightarrow> string) \<Rightarrow> int \<Rightarrow> string \<Rightarrow> cache_db \<Rightarrow> cached_link option \<times> cache_db" where
  "getCachedLink md5 now url cache =
     (let hash = hashUrl md5 url in
      case cache hash of
        None \<Rightarrow> (None, cache)
      | Some data \<Rightarrow>
          if c_expiresAt data < now
          then (None, cache(hash \<mapsto> data\<lparr> c_status := ''expired'' \<rparr>))
          else if c_status data \<noteq> ''valid'' then (None, cache)
          else (Some data,
                cache(hash \<mapsto> data\<lparr> c_hitCount := c_hitCount data + 1,
                                      c_lastHitAt := Some now \<rparr>)))"

definition setCachedLink ::
  "(string \<Rightarrow> string) \<Rightarrow> int \<Rightarrow> string \<Rightarrow> string \<Rightarrow> string \<Rightarrow> string option \<Rightarrow> button list option
     \<Rightarrow> cache_db \<Rightarrow> cache_db" where
  "setCachedLink md5 now originalUrl finalLink solverUsed best_button_name all_available_buttons cache =
     cache(hashUrl md5 originalUrl \<mapsto>
       \<lparr> c_originalUrl = originalUrl,
         c_finalLink = finalLink,
         c_solverUsed = solverUsed,
         c_resolvedAt = now,
         c_expiresAt = now + CACHE_EXPIRY_MS,
         c_hitCount = 0,
         c_status = ''valid'',
         c_best_button_name = best_button_name,
         c_all_available_buttons = (case all_available_buttons of None \<Rightarrow> [] | Some b \<Rightarrow> b),
         c_lastHitAt = None,
         c_brokenAt = None \<rparr>)"

text \<open>\<open>update\<close> on a missing document throws, and the throw is swallowed.\<close>

definition markCacheBroken :: "(string \<Rightarrow> string) \<Rightarrow> int \<Rightarrow> string \<Rightarrow> cache_db \<Rightarrow> cache_db" where
  "markCacheBroken md5 now url cache =
     (let hash = hashUrl md5 url in
      case cache hash of
        None \<Rightarrow> cache
      | Some data \<Rightarrow> cache(hash \<mapsto> data\<lparr> c_status := ''broken'', c_brokenAt := Some now \<rparr>))"

text \<open>A link as the orchestrator queues it: \<open>{...l, id: i, status: 'pending', logs: [...]}\<close>.\<close>

definition queued_link :: "int \<Rightarrow> string \<Rightarrow> string \<Rightarrow> link" where
  "queued_link i name url =
     \<lparr> l_id = i, l_name = name, l_link = url, l_status = Some ''pending'',
       l_finalLink = None, l_error = None,
       l_logs = [(''Queued for processing...'', ''info'')],
       l_best_button_name = None, l_all_available_buttons = [], l_solvedAt = None \<rparr>"

definition new_task :: "string \<Rightarrow> string \<Rightarrow> string option \<Rightarrow> int \<Rightarrow> link list \<Rightarrow> task" where
  "new_task url status extractedBy now ls =
     \<lparr> t_url = url, t_status = status, t_links = ls, t_extractedBy = extractedBy,
       t_error = None, t_createdAt = Some now, t_processingStartedAt = None,
       t_completedAt = None, t_recoveredAt = None, t_recoveryReason = None \<rparr>"



section \<open>Page fetches: the retry wrapper and the HBLinks resolver\<close>

text \<open>
  What \<open>axios.get\<close> gives for a request: a response (status and, of the page, the \<open>href\<close>
  values of its anchors in document order), or a thrown error carrying the response status,
  when there was a response, and a message.  The network is an oracle \<open>http\<close> of the
  request's number and url.
\<close>

datatype http_reply = Http_ok nat "string list" | Http_error "nat option" string

function show_nat :: "nat \<Rightarrow> string" where
  "show_nat n = (if n < 10 then [''0123456789'' ! n]
                 else show_nat (n div 10) @ [''0123456789'' ! (n mod 10)])"
  by pat_completeness auto
termination
  by (relation "measure (\<lambda>n. n)") auto

declare show_nat.simps [simp del]

text \<open>
  \<open>axiosWithRetry\<close>: the loop \<open>for (attempt = 0; attempt <= maxRetries; attempt++)\<close>.
  The result is the reply that is returned or thrown, the backoff waits made (in
  milliseconds, in order), and the number of the next request.
\<close>

function axiosWithRetry_loop ::
  "(nat \<Rightarrow> string \<Rightarrow> http_reply) \<Rightarrow> string \<Rightarrow> nat \<Rightarrow> nat \<Rightarrow> http_reply option \<Rightarrow> nat
     \<Rightarrow> http_reply \<times> int list \<times> nat" where
  "axiosWithRetry_loop http url maxRetries attempt lastError k =
     (if attempt \<le> maxRetries then
        (case http k url of
           Http_ok st page \<Rightarrow> (Http_ok st page, [], Suc k)
         | Http_error st msg \<Rightarrow>
             if st \<in> set [Some 522, Some 502, Some 503, Some 504] \<and> attempt < maxRetries
             then (case axiosWithRetry_loop http url maxRetries (attempt + 1)
                          (Some (Http_error st msg)) (Suc k) of
                     (r, waits, k') \<Rightarrow> (r, 2000 * (int attempt + 1) # waits, k'))
             else (Http_error st msg, [], Suc k))
      else (case lastError of None \<Rightarrow> (Http_error None [], [], k)
                            | Some err \<Rightarrow> (err, [], k)))"
  by pat_completeness auto
termination
  by (relation "measure (\<lambda>(http, url, maxRetries, attempt, lastError, k). Suc maxRetries - attempt)") auto

declare axiosWithRetry_loop.simps [simp del]

definition axiosWithRetry ::
  "(nat \<Rightarrow> string \<Rightarrow> http_reply) \<Rightarrow> string \<Rightarrow> nat \<Rightarrow> http_reply \<times> int list \<times> nat" where
  "axiosWithRetry http url k = axiosWithRetry_loop http url HTTP_522_MAX_RETRIES 0 None k"

text \<open>
  What a resolver returns: success with the next url, or a failure with its status word
  and message.  (The \<open>source\<close> label of an HBLinks success is not used by any caller and is
  left out.)
\<close>

datatype hop = Hop_success string | Hop_failure string string

text \<open>\<open>for (const tld of TLDS) { found = $(`a[href*="host${tld}"]`).attr('href'); ... }\<close>\<close>

fun first_tld_match :: "string \<Rightarrow> string list \<Rightarrow> string list \<Rightarrow> string option" where
  "first_tld_match host [] page = None"
| "first_tld_match host (tld # tlds) page =
     (case find (\<lambda>h. str_includes h (host @ tld)) page of
        Some found \<Rightarrow> Some found
      | None \<Rightarrow> first_tld_match host tlds page)"

text \<open>\<open>solveHBLinks\<close>: one \<open>axios.get\<close>, then the three-priority search of the page.\<close>

definition solveHBLinks :: "(nat \<Rightarrow> string \<Rightarrow> http_reply) \<Rightarrow> nat \<Rightarrow> string \<Rightarrow> hop \<times> nat" where
  "solveHBLinks http k url =
     (case http k url of
        Http_error st msg \<Rightarrow> (Hop_failure ''error'' msg, Suc k)
      | Http_ok st page \<Rightarrow>
          if st \<noteq> 200 then (Hop_failure ''fail'' (''HTTP '' @ show_nat st), Suc k)
          else (case first_tld_match ''hubcloud'' HUBCLOUD_TLDS page of
                  Some found \<Rightarrow> (Hop_success found, Suc k)
                | None \<Rightarrow>
                   (case first_tld_match ''hubdrive'' HUBDRIVE_TLDS page of
                      Some found \<Rightarrow> (Hop_success found, Suc k)
                    | None \<Rightarrow>
                       (case find (\<lambda>h. str_includes h ''hubcloud'' \<or> str_includes h ''hubdrive'') page of
                          Some generic \<Rightarrow> (Hop_success generic, Suc k)
                        | None \<Rightarrow> (Hop_failure ''fail'' ''No HubCloud or HubDrive link found'', Suc k)))))"

section \<open>The resolver chain\<close>

text \<open>
  The remote services are oracles of the chain's environment, each a function of the number
  of the remote call and of the url it is given.  \<open>e_latency\<close> is the time the n-th remote
  call takes; reads and writes of the document store take no time in the model.
\<close>

text \<open>
  What \<open>fetchWithTimeout\<close> on the timer service gives: a thrown error, or the JSON body's
  \<open>status\<close> and \<open>extracted_link\<close> (the empty string when the field is absent: both are
  falsy).
\<close>

datatype fetched = Fetch_threw string | Fetch_json string string

datatype hubcloud = HubCloud_success string "string option" "button list option" | HubCloud_failure string

record env =
  e_md5 :: "string \<Rightarrow> string"
  e_latency :: "nat \<Rightarrow> int"
  e_http :: "nat \<Rightarrow> string \<Rightarrow> http_reply"
  e_solveHubCDN :: "nat \<Rightarrow> string \<Rightarrow> hop"
  e_solveGadgetsWebNative :: "nat \<Rightarrow> string \<Rightarrow> hop"
  e_timer_api :: "nat \<Rightarrow> string \<Rightarrow> fetched"
  e_solveHubDrive :: "nat \<Rightarrow> string \<Rightarrow> hop"
  e_solveHubCloudNative :: "nat \<Rightarrow> string \<Rightarrow> hubcloud"

text \<open>
  The local state of one \<open>solveWork\<close> execution: \<open>currentLink\<close>, the log lines with the
  time (since the chain began) at which each was pushed, the time elapsed and the number of
  the next remote call.  Log texts are the source's without their pictographs.
\<close>

record chain =
  ch_link :: string
  ch_logs :: "(int \<times> log) list"
  ch_elapsed :: int
  ch_calls :: nat

definition push_log :: "string \<Rightarrow> string \<Rightarrow> chain \<Rightarrow> chain" where
  "push_log msg ty ch = ch\<lparr> ch_logs := ch_logs ch @ [(ch_elapsed ch, (msg, ty))] \<rparr>"

definition after_call :: "env \<Rightarrow> chain \<Rightarrow> chain" where
  "after_call env ch =
     ch\<lparr> ch_elapsed := ch_elapsed ch + e_latency env (ch_calls ch), ch_calls := Suc (ch_calls ch) \<rparr>"








section \<open>The link processor\<close>

text \<open>
  The state that a run reads and writes: the task documents, the cache documents, the
  clock, and the number of the next remote call.  \<open>w_lookups\<close> and \<open>w_chains\<close> are
  counters added by the model: the number of \<open>getCachedLink\<close> calls and of \<open>solveWork\<close>
  executions made so far.
\<close>

record world =
  w_tasks :: tasks_db
  w_cache :: cache_db
  w_now :: int
  w_calls :: nat
  w_lookups :: nat
  w_chains :: nat




text \<open>The tail of \<open>processLink\<close>: the write to the task and, on success, to the cache.\<close>

definition persist_result ::
  "env \<Rightarrow> string \<Rightarrow> int \<Rightarrow> string \<Rightarrow> string \<Rightarrow> solve_result \<Rightarrow> world \<Rightarrow> world" where
  "persist_result env taskId lid originalUrl extractedBy result w =
     w\<lparr> w_tasks := saveResultToFirestore taskId lid originalUrl result (Some extractedBy)
                     (w_now w) (w_tasks w),
        w_cache := (if r_status result = Some ''done'' \<and> or_empty (r_finalLink result) \<noteq> []
                    then setCachedLink (e_md5 env) (w_now w) originalUrl
                           (or_empty (r_finalLink result)) ''solve_task''
                           (r_best_button_name result) (r_all_available_buttons result) (w_cache w)
                    else w_cache w) \<rparr>"




section \<open>The batch orchestrator\<close>





text \<open>A document of a queue collection.\<close>

record queue_item =
  q_url :: string
  q_status :: string
  q_retryCount :: "nat option"
  q_lockedAt :: "int option"
  q_updatedAt :: "int option"
  q_createdAt :: "int option"
  q_taskId :: "string option"
  q_error :: "string option"
  q_lastError :: "string option"
  q_failedAt :: "int option"
  q_processedAt :: "int option"
  q_lastRecoveredAt :: "int option"
  q_lastPartialRunAt :: "int option"

text \<open>\<open>item.retryCount || 0\<close>\<close>

definition retry_or_zero :: "queue_item \<Rightarrow> nat" where
  "retry_or_zero item = (case q_retryCount item of None \<Rightarrow> 0 | Some n \<Rightarrow> n)"






section \<open>Stuck-work recovery and the claim of a queue item\<close>

text \<open>\<open>a || b\<close> on optional timestamps.\<close>

definition first_some :: "'a option \<Rightarrow> 'a option \<Rightarrow> 'a option" where
  "first_some a b = (case a of None \<Rightarrow> b | Some x \<Rightarrow> Some x)"

text \<open>
  Part A of \<open>recoverStuckTasks\<close>, for one document of a queue collection.  The query
  selects the documents whose status is \<open>processing\<close>; an item with no timestamp at all
  counts as locked for ever (\<open>Infinity\<close>).
\<close>

definition queue_item_stuck :: "int \<Rightarrow> queue_item \<Rightarrow> bool" where
  "queue_item_stuck now data =
     (q_status data = ''processing'' \<and>
      (case first_some (q_lockedAt data) (first_some (q_updatedAt data) (q_createdAt data)) of
         None \<Rightarrow> True
       | Some lockedAt \<Rightarrow> now - lockedAt > STUCK_TASK_THRESHOLD_MS))"

definition recover_queue_item :: "int \<Rightarrow> queue_item \<Rightarrow> queue_item" where
  "recover_queue_item now data =
     (if queue_item_stuck now data then
        (let retryCount = retry_or_zero data + 1 in
         if retryCount > MAX_CRON_RETRIES then
           data\<lparr> q_status := ''failed'',
                 q_error := Some (''Max retries exceeded '' @ show_nat MAX_CRON_RETRIES @ ''/'' @ show_nat MAX_CRON_RETRIES),
                 q_failedAt := Some now \<rparr>
         else
           data\<lparr> q_status := ''pending'', q_lockedAt := None, q_retryCount := Some retryCount,
                 q_lastRecoveredAt := Some now \<rparr>)
      else data)"

text \<open>Part B, for one document of \<open>scraping_tasks\<close>; a task with no timestamp has age 0.\<close>

definition task_stuck :: "int \<Rightarrow> task \<Rightarrow> bool" where
  "task_stuck now data =
     (t_status data = ''processing'' \<and>
      (case first_some (t_processingStartedAt data) (t_createdAt data) of
         None \<Rightarrow> False
       | Some startedAt \<Rightarrow> now - startedAt > STUCK_TASK_THRESHOLD_MS))"

definition task_age :: "int \<Rightarrow> task \<Rightarrow> int" where
  "task_age now data =
     (case first_some (t_processingStartedAt data) (t_createdAt data) of
        None \<Rightarrow> 0 | Some startedAt \<Rightarrow> now - startedAt)"

definition reset_link :: "link \<Rightarrow> link" where
  "reset_link l =
     (if l_status l = None \<or> l_status l = Some [] \<or> l_status l \<in> set [Some ''pending'', Some ''processing'', Some []]
      then l\<lparr> l_status := Some ''error'', l_error := Some ''Task stuck >10min - auto-recovered'',
               l_logs := l_logs l @ [(''Auto-recovered (stuck >10min)'', ''warn'')] \<rparr>
      else l)"

definition recover_task :: "int \<Rightarrow> task \<Rightarrow> task" where
  "recover_task now data =
     (if task_stuck now data then
        (let links = t_links data;
             allTerminal = (length links > 0 \<and>
                            list_all (\<lambda>l. toLowerCase (or_empty (l_status l))
                                         \<in> set [''done'', ''success'', ''error'', ''failed'']) links);
             allSuccess = (allTerminal \<and>
                           list_all (\<lambda>l. toLowerCase (or_empty (l_status l))
                                         \<in> set [''done'', ''success'']) links)
         in if allTerminal then
              data\<lparr> t_status := (if allSuccess then ''completed'' else ''failed''),
                    t_completedAt := (if allSuccess then Some now else t_completedAt data),
                    t_recoveredAt := Some now,
                    t_recoveryReason := Some ''Vercel timeout - task status not updated'' \<rparr>
            else
              data\<lparr> t_links := map reset_link links,
                    t_status := ''failed'',
                    t_recoveredAt := Some now,
                    t_recoveryReason :=
                      Some (''Task stuck in processing for ''
                            @ show_nat (nat ((task_age now data + 30000) div 60000)) @ ''min'') \<rparr>)
      else data)"

text \<open>
  \<open>recoverStuckTasks\<close> over the two queue collections (lists of documents with their ids)
  and the task collection, whose documents are those under the ids \<open>task_ids\<close>.  The result
  is the count \<open>recovered\<close> and the collections as left.
\<close>

definition recoverStuckTasks ::
  "int \<Rightarrow> (string \<times> queue_item) list \<Rightarrow> (string \<times> queue_item) list \<Rightarrow> string list \<Rightarrow> tasks_db
     \<Rightarrow> nat \<times> (string \<times> queue_item) list \<times> (string \<times> queue_item) list \<times> tasks_db" where
  "recoverStuckTasks now movies_queue webseries_queue task_ids tasks =
     (length (filter (\<lambda>(i, data). queue_item_stuck now data) movies_queue)
        + length (filter (\<lambda>(i, data). queue_item_stuck now data) webseries_queue)
        + length (filter (\<lambda>i. case tasks i of None \<Rightarrow> False | Some data \<Rightarrow> task_stuck now data)
                    (remdups task_ids)),
      map (\<lambda>(i, data). (i, recover_queue_item now data)) movies_queue,
      map (\<lambda>(i, data). (i, recover_queue_item now data)) webseries_queue,
      (\<lambda>i. map_option (recover_task now) (tasks i)))"



section \<open>Task status as a function of the links\<close>

lemma saveResultToFirestore_allDone:
  "list_all (\<lambda>l. toLowerCase (or_empty (l_status l))
               \<in> set [''done'', ''success'', ''error'', ''failed'']) ls
   = (\<forall>l \<in> set ls. link_terminal l)"
  by (simp add: list_all_iff link_terminal_def Let_def)



lemma toLowerCase_status_words [simp]:
  "toLowerCase ''pending'' = ''pending''"
  "toLowerCase ''processing'' = ''processing''"
  "toLowerCase ''done'' = ''done''"
  "toLowerCase ''error'' = ''error''"
  "toLowerCase [] = []"
  by (simp_all add: toLowerCase_def lower_char_def)

text \<open>A task of two queued links, used to run the operations on concrete data.\<close>

definition demo_task :: task where
  "demo_task = new_task ''https://page.example/m'' ''processing'' None 5
                 [queued_link 0 ''a'' ''https://hubcloud.foo/a'',
                  queued_link 1 ''b'' ''https://gdflix.dev/b'']"



section \<open>Cache round trip\<close>

definition demo_entry :: cached_link where
  "demo_entry =
     \<lparr> c_originalUrl = ''https://hblinks.pro/x'', c_finalLink = ''https://cdn.example/f.mkv'',
       c_solverUsed = ''solve_task'', c_resolvedAt = 0, c_expiresAt = 50, c_hitCount = 4,
       c_status = ''broken'', c_best_button_name = None, c_all_available_buttons = [],
       c_lastHitAt = None, c_brokenAt = Some 7 \<rparr>"

text \<open>
  C4.  A lookup made after a store of the same url, no later than the stored expiry,
  returns the stored document, whose \<open>finalLink\<close> is the stored one and whose \<open>hitCount\<close>
  is the stored 0, and leaves the entry's \<open>hitCount\<close> one higher.  A lookup that finds
  an entry past its \<open>expiresAt\<close> returns no document and marks the entry \<open>expired\<close>; a
  lookup that finds a broken entry (also one just marked by \<open>markCacheBroken\<close>) returns
  no document.
\<close>

theorem cache_store_then_lookup:
  "(now2 \<le> now1 + CACHE_EXPIRY_MS \<longrightarrow>
      (\<exists>d c2 e2. getCachedLink digest now2 u (setCachedLink digest now1 u f sv bb ab cache) = (Some d, c2)
         \<and> c_finalLink d = f \<and> c_hitCount d = 0
         \<and> c2 (hashUrl digest u) = Some e2 \<and> c_finalLink e2 = f \<and> c_hitCount e2 = c_hitCount d + 1))
   \<and> (cache (hashUrl digest u) = Some e \<and> c_expiresAt e < now \<longrightarrow>
        getCachedLink digest now u cache
          = (None, cache(hashUrl digest u \<mapsto> e\<lparr> c_status := ''expired'' \<rparr>)))
   \<and> (cache (hashUrl digest u) = Some e \<and> c_status e = ''broken'' \<longrightarrow>
        fst (getCachedLink digest now u cache) = None)
   \<and> (cache (hashUrl digest u) = Some e \<longrightarrow>
        fst (getCachedLink digest now u (markCacheBroken digest now0 u cache)) = None)"
  by (simp add: getCachedLink_def setCachedLink_def markCacheBroken_def Let_def)

theorem cache_store_then_lookup_witness:
  "(1000 :: int) \<le> 900 + CACHE_EXPIRY_MS
   \<and> [hashUrl (\<lambda>x. x) ''https://hblinks.pro/x'' \<mapsto> demo_entry] (hashUrl (\<lambda>x. x) ''https://hblinks.pro/x'')
       = Some demo_entry
   \<and> c_expiresAt demo_entry < 60 \<and> c_status demo_entry = ''broken''
   \<and> (\<exists>d c2 e2. getCachedLink (\<lambda>x. x) 1000 ''https://hblinks.pro/x''
                   (setCachedLink (\<lambda>x. x) 900 ''https://hblinks.pro/x'' ''https://cdn.example/g.mkv''
                      ''solve_task'' None None
                      [hashUrl (\<lambda>x. x) ''https://hblinks.pro/x'' \<mapsto> demo_entry]) = (Some d, c2)
         \<and> c_finalLink d = ''https://cdn.example/g.mkv'' \<and> c_hitCount d = 0
         \<and> c2 (hashUrl (\<lambda>x. x) ''https://hblinks.pro/x'') = Some e2
         \<and> c_finalLink e2 = ''https://cdn.example/g.mkv'' \<and> c_hitCount e2 = c_hitCount d + 1)
   \<and> getCachedLink (\<lambda>x. x) 60 ''https://hblinks.pro/x''
         [hashUrl (\<lambda>x. x) ''https://hblinks.pro/x'' \<mapsto> demo_entry]
       = (None, [hashUrl (\<lambda>x. x) ''https://hblinks.pro/x'' \<mapsto> demo_entry]
                  (hashUrl (\<lambda>x. x) ''https://hblinks.pro/x'' \<mapsto> demo_entry\<lparr> c_status := ''expired'' \<rparr>))
   \<and> fst (getCachedLink (\<lambda>x. x) 60 ''https://hblinks.pro/x''
         [hashUrl (\<lambda>x. x) ''https://hblinks.pro/x'' \<mapsto> demo_entry]) = None"
proof -
  have a: "(1000 :: int) \<le> 900 + CACHE_EXPIRY_MS" by (simp add: CACHE_EXPIRY_MS_def)
  have b: "[hashUrl (\<lambda>x. x) ''https://hblinks.pro/x'' \<mapsto> demo_entry] (hashUrl (\<lambda>x. x) ''https://hblinks.pro/x'')
       = Some demo_entry" by simp
  have c: "c_expiresAt demo_entry < 60" "c_status demo_entry = ''broken''"
    by (simp_all add: demo_entry_def)
  show ?thesis
    using a b c
      cache_store_then_lookup [where ?now1.0 = 900 and ?now2.0 = 1000 and digest = "\<lambda>x. x"
        and u = "''https://hblinks.pro/x''" and f = "''https://cdn.example/g.mkv''"
        and sv = "''solve_task''" and bb = None and ab = None
        and cache = "[hashUrl (\<lambda>x. x) ''https://hblinks.pro/x'' \<mapsto> demo_entry]"
        and e = demo_entry and now = 60 and ?now0.0 = 0]
    by simp
qed

section \<open>Transient-error retry of page fetches\<close>

lemma axiosWithRetry_unfold:
  "axiosWithRetry http url k =
     (case http k url of
        Http_ok st page \<Rightarrow> (Http_ok st page, [], Suc k)
      | Http_error st msg \<Rightarrow>
          if st \<in> set [Some 522, Some 502, Some 503, Some 504] then
            (case http (Suc k) url of
               Http_ok st1 page1 \<Rightarrow> (Http_ok st1 page1, [2000], Suc (Suc k))
             | Http_error st1 msg1 \<Rightarrow>
                 if st1 \<in> set [Some 522, Some 502, Some 503, Some 504] then
                   (case http (Suc (Suc k)) url of
                      Http_ok st2 page2 \<Rightarrow> (Http_ok st2 page2, [2000, 4000], Suc (Suc (Suc k)))
                    | Http_error st2 msg2 \<Rightarrow> (Http_error st2 msg2, [2000, 4000], Suc (Suc (Suc k))))
                 else (Http_error st1 msg1, [2000], Suc (Suc k)))
          else (Http_error st msg, [], Suc k))"
  unfolding axiosWithRetry_def HTTP_522_MAX_RETRIES_def
  apply (subst axiosWithRetry_loop.simps)
  apply (subst axiosWithRetry_loop.simps)
  apply (subst axiosWithRetry_loop.simps)
  apply (simp split: http_reply.splits)
  done

lemma axiosWithRetry_waits:
  "(case axiosWithRetry http url k of
      (r, waits, k') \<Rightarrow> waits \<in> set [[], [2000], [2000, 4000]] \<and> k' = Suc k + length waits)"
  unfolding axiosWithRetry_unfold
  by (simp split: http_reply.splits)

text \<open>A network that answers the first two requests with HTTP 522 and the third with a page.\<close>

definition flaky_http :: "nat \<Rightarrow> string \<Rightarrow> http_reply" where
  "flaky_http n url =
     (if n < 2 then Http_error (Some 522) ''Request failed with status code 522''
      else Http_ok 200 [''https://hubcloud.foo/drive/abc''])"

text \<open>
  C6, as amended.  A page fetch made through \<open>axiosWithRetry\<close> (the wrapper that link
  extraction uses) is retried on HTTP 522, 502, 503 and 504 at most twice, waiting 2s and
  then 4s: the waits made are a prefix of (2s, 4s) and one more request is made than waits.
  A fetch answered 522 twice and then with a page returns that page after exactly the
  waits 2s and 4s and three requests; a third transient error is thrown after the same two
  waits, with no further request; any other error is thrown at once with no wait.  The
  fetch of a resolver hop is not wrapped: \<open>solveHBLinks\<close> makes exactly one request and
  reports a thrown error as its failure.
\<close>

theorem axiosWithRetry_backoff:
  "(case axiosWithRetry http url k of
      (r, waits, k') \<Rightarrow> waits \<in> set [[], [2000], [2000, 4000]] \<and> k' = Suc k + length waits)
   \<and> (http k url = Http_error (Some 522) m0 \<and> http (Suc k) url = Http_error (Some 522) m1
        \<and> http (Suc (Suc k)) url = Http_ok 200 page
        \<longrightarrow> axiosWithRetry http url k = (Http_ok 200 page, [2000, 4000], k + 3))
   \<and> (http k url = Http_error st0 m0 \<and> http (Suc k) url = Http_error st1 m1
        \<and> http (Suc (Suc k)) url = Http_error st2 m2
        \<and> st0 \<in> set [Some 522, Some 502, Some 503, Some 504]
        \<and> st1 \<in> set [Some 522, Some 502, Some 503, Some 504]
        \<longrightarrow> axiosWithRetry http url k = (Http_error st2 m2, [2000, 4000], k + 3))
   \<and> (http k url = Http_error st0 m0 \<and> st0 \<notin> set [Some 522, Some 502, Some 503, Some 504]
        \<longrightarrow> axiosWithRetry http url k = (Http_error st0 m0, [], k + 1))
   \<and> snd (solveHBLinks http k url) = k + 1
   \<and> (http k url = Http_error st0 m0 \<longrightarrow> fst (solveHBLinks http k url) = Hop_failure ''error'' m0)"
proof (intro conjI)
  show "case axiosWithRetry http url k of
      (r, waits, k') \<Rightarrow> waits \<in> set [[], [2000], [2000, 4000]] \<and> k' = Suc k + length waits"
    by (rule axiosWithRetry_waits)
  show "snd (solveHBLinks http k url) = k + 1"
    by (simp add: solveHBLinks_def split: http_reply.splits option.splits)
qed (auto simp: axiosWithRetry_unfold solveHBLinks_def)

theorem axiosWithRetry_backoff_witness:
  "flaky_http 0 ''https://page.example/m'' = Http_error (Some 522) ''Request failed with status code 522''
   \<and> flaky_http (Suc 0) ''https://page.example/m'' = Http_error (Some 522) ''Request failed with status code 522''
   \<and> flaky_http (Suc (Suc 0)) ''https://page.example/m'' = Http_ok 200 [''https://hubcloud.foo/drive/abc'']
   \<and> axiosWithRetry flaky_http ''https://page.example/m'' 0
       = (Http_ok 200 [''https://hubcloud.foo/drive/abc''], [2000, 4000], 3)
   \<and> (Some 503 :: nat option) \<in> set [Some 522, Some 502, Some 503, Some 504]
   \<and> axiosWithRetry (\<lambda>n u. Http_error (Some 503) ''Service Unavailable'') ''https://page.example/m'' 0
       = (Http_error (Some 503) ''Service Unavailable'', [2000, 4000], 3)
   \<and> (Some 404 :: nat option) \<notin> set [Some 522, Some 502, Some 503, Some 504]
   \<and> axiosWithRetry (\<lambda>n u. Http_error (Some 404) ''Not Found'') ''https://page.example/m'' 0
       = (Http_error (Some 404) ''Not Found'', [], 1)
   \<and> fst (solveHBLinks (\<lambda>n u. Http_error (Some 404) ''Not Found'') 0 ''https://hblinks.pro/a'')
       = Hop_failure ''error'' ''Not Found''"
  using axiosWithRetry_backoff [where http = flaky_http and url = "''https://page.example/m''" and k = 0
      and ?m0.0 = "''Request failed with status code 522''"
      and ?m1.0 = "''Request failed with status code 522''"
      and page = "[''https://hubcloud.foo/drive/abc'']"]
    axiosWithRetry_backoff [where http = "\<lambda>n u. Http_error (Some 503) ''Service Unavailable''"
      and url = "''https://page.example/m''" and k = 0
      and ?st0.0 = "Some 503" and ?st1.0 = "Some 503" and ?st2.0 = "Some 503"
      and ?m0.0 = "''Service Unavailable''" and ?m1.0 = "''Service Unavailable''"
      and ?m2.0 = "''Service Unavailable''"]
    axiosWithRetry_backoff [where http = "\<lambda>n u. Http_error (Some 404) ''Not Found''"
      and url = "''https://page.example/m''" and k = 0
      and ?st0.0 = "Some 404" and ?m0.0 = "''Not Found''"]
    axiosWithRetry_backoff [where http = "\<lambda>n u. Http_error (Some 404) ''Not Found''"
      and url = "''https://hblinks.pro/a''" and k = 0
      and ?st0.0 = "Some 404" and ?m0.0 = "''Not Found''"]
  by (simp add: flaky_http_def)

text \<open>
  The claim as first stated, that every fetch made inside a resolver hop is so wrapped,
  fails for the HBLinks hop: on the network that answers 522 twice and then with a page,
  the hop fails after its single request, while the same fetch through the wrapper
  succeeds.
\<close>

theorem solveHBLinks_not_retried_counterexample:
  "solveHBLinks flaky_http 0 ''https://hblinks.pro/archives/1''
     = (Hop_failure ''error'' ''Request failed with status code 522'', 1)
   \<and> axiosWithRetry flaky_http ''https://hblinks.pro/archives/1'' 0
     = (Http_ok 200 [''https://hubcloud.foo/drive/abc''], [2000, 4000], 3)"
  by (simp add: solveHBLinks_def axiosWithRetry_unfold flaky_http_def)

section \<open>The timer bypass loop\<close>

lemma chain_fields [simp]:
  "ch_calls (after_call env ch) = Suc (ch_calls ch)"
  "ch_link (after_call env ch) = ch_link ch"
  "ch_calls (push_log m t ch) = ch_calls ch"
  "ch_link (push_log m t ch) = ch_link ch"
  "ch_elapsed (push_log m t ch) = ch_elapsed ch"
  "ch_elapsed (after_call env ch) = ch_elapsed ch + e_latency env (ch_calls ch)"
  by (simp_all add: after_call_def push_log_def)








section \<open>Cache hit, timeout and retry in the link processor\<close>


lemma persist_result_fields [simp]:
  "w_lookups (persist_result env taskId lid url by res w) = w_lookups w"
  "w_chains (persist_result env taskId lid url by res w) = w_chains w"
  "w_calls (persist_result env taskId lid url by res w) = w_calls w"
  "w_now (persist_result env taskId lid url by res w) = w_now w"
  by (simp_all add: persist_result_def)






lemma show_nat_20 [simp]: "show_nat (nat (LINK_TIMEOUT_MS div 1000)) = ''20''"
  by (simp add: LINK_TIMEOUT_MS_def show_nat.simps)









section \<open>The time-budget checkpoint\<close>

text \<open>The link of a task with a given id, its status, and the (id, url) pairs of the task's links.\<close>

definition link_at :: "tasks_db \<Rightarrow> string \<Rightarrow> int \<Rightarrow> link option" where
  "link_at db taskId lid =
     (case db taskId of None \<Rightarrow> None | Some t \<Rightarrow> find (\<lambda>l. l_id l = lid) (t_links t))"


definition task_keys :: "tasks_db \<Rightarrow> string \<Rightarrow> (int \<times> string) list" where
  "task_keys db taskId =
     (case db taskId of None \<Rightarrow> [] | Some t \<Rightarrow> map (\<lambda>l. (l_id l, l_link l)) (t_links t))"

lemma write_link_keys [simp]:
  "l_id (write_link res now l) = l_id l" "l_link (write_link res now l) = l_link l"
  "l_status (write_link res now l) = Some (case r_status res of None \<Rightarrow> ''error'' | Some s \<Rightarrow> s)"
  by (simp_all add: write_link_def)

lemma save_keys [simp]:
  "task_keys (saveResultToFirestore taskId lid url res eb now db) tid' = task_keys db tid'"
  by (auto simp: task_keys_def saveResultToFirestore_def Let_def split: option.splits)



lemma save_link_at_other:
  "link_at (saveResultToFirestore taskId lid url res eb now db) tid' x = link_at db tid' x"
  if "tid' \<noteq> taskId"
  using that by (simp add: link_at_def saveResultToFirestore_def Let_def split: option.splits)

























section \<open>Stuck-work recovery\<close>

lemma recover_task_not_processing:
  "task_stuck now t \<Longrightarrow> t_status (recover_task now t) \<noteq> ''processing''"
  by (simp add: recover_task_def Let_def)

lemma recover_task_idem:
  "task_stuck now t \<Longrightarrow> recover_task now' (recover_task now t) = recover_task now t"
  using recover_task_not_processing [of now t]
  by (subst recover_task_def) (simp add: task_stuck_def)

lemma recover_task_same:
  "recover_task now (recover_task now t) = recover_task now t"
proof (cases "task_stuck now t")
  case True
  then show ?thesis by (rule recover_task_idem)
next
  case False
  then have "recover_task now t = t" by (simp add: recover_task_def)
  then show ?thesis by simp
qed

lemma recover_queue_item_not_processing:
  "queue_item_stuck now q \<Longrightarrow> q_status (recover_queue_item now q) \<noteq> ''processing''"
  by (simp add: recover_queue_item_def Let_def)

lemma recover_queue_item_idem:
  "queue_item_stuck now q \<Longrightarrow> recover_queue_item now' (recover_queue_item now q) = recover_queue_item now q"
  using recover_queue_item_not_processing [of now q]
  by (subst recover_queue_item_def) (simp add: queue_item_stuck_def)

lemma recover_queue_item_same:
  "recover_queue_item now (recover_queue_item now q) = recover_queue_item now q"
proof (cases "queue_item_stuck now q")
  case True
  then show ?thesis by (rule recover_queue_item_idem)
next
  case False
  then have "recover_queue_item now q = q" by (simp add: recover_queue_item_def)
  then show ?thesis by simp
qed

lemma recover_task_after: "\<not> task_stuck now (recover_task now t)"
proof (cases "task_stuck now t")
  case True
  from recover_task_not_processing [OF this] show ?thesis by (simp add: task_stuck_def)
next
  case False
  then show ?thesis by (simp add: recover_task_def)
qed

lemma recover_queue_item_after: "\<not> queue_item_stuck now (recover_queue_item now q)"
proof (cases "queue_item_stuck now q")
  case True
  from recover_queue_item_not_processing [OF this] show ?thesis by (simp add: queue_item_stuck_def)
next
  case False
  then show ?thesis by (simp add: recover_queue_item_def)
qed

lemma recoverStuckTasks_twice:
  "recoverStuckTasks now
      (fst (snd (recoverStuckTasks now mq wq ids db)))
      (fst (snd (snd (recoverStuckTasks now mq wq ids db)))) ids
      (snd (snd (snd (recoverStuckTasks now mq wq ids db))))
   = (0, snd (recoverStuckTasks now mq wq ids db))"
  by (auto simp: recoverStuckTasks_def recover_queue_item_same recover_task_same
      recover_queue_item_after recover_task_after filter_empty_conv option.map_comp comp_def
      split: option.splits cong: map_cong option.map_cong)

lemma reset_link_terminal: "link_terminal l \<Longrightarrow> reset_link l = l"
  by (auto simp: link_terminal_def reset_link_def Let_def or_empty_def)

lemma reset_link_forced:
  "l_status l \<in> {None, Some [], Some ''pending'', Some ''processing''} \<Longrightarrow>
     l_status (reset_link l) = Some ''error''"
  by (auto simp: reset_link_def)

lemma reset_link_domain:
  "l_status l \<in> {None, Some ''pending'', Some ''processing'', Some ''done'', Some ''error''} \<Longrightarrow>
     link_terminal (reset_link l)"
  by (auto simp: reset_link_def link_terminal_def Let_def or_empty_def)

text \<open>
  C8, as amended.  A task left in \<open>processing\<close> for more than ten minutes is settled from
  its links alone when it has links and all are terminal: its links are kept as they are
  and its status becomes \<open>completed\<close> when every link succeeded, \<open>failed\<close> otherwise.
  In every other case the task becomes \<open>failed\<close> and each link whose status is missing,
  empty, \<open>pending\<close> or \<open>processing\<close> is forced to \<open>error\<close>, terminal links being kept;
  when the statuses are those of the data model, every link is terminal afterwards.  A
  queue item left in \<open>processing\<close> for more than ten minutes is requeued as \<open>pending\<close>
  with its retry count raised by one while that count stays within the cap of 3, and is
  set to \<open>failed\<close> otherwise; no link is looked at for a queue item.  Recovery of a
  recovered task or item changes nothing, at any later time, and a second
  \<open>recoverStuckTasks\<close> at the same time recovers nothing and leaves every collection as
  the first left it.
\<close>

theorem stuck_recovery:
  "(task_stuck now t \<and> t_links t \<noteq> [] \<and> (\<forall>l \<in> set (t_links t). link_terminal l) \<longrightarrow>
      t_links (recover_task now t) = t_links t
      \<and> t_status (recover_task now t)
          = (if \<forall>l \<in> set (t_links t). link_succeeded l then ''completed'' else ''failed''))
   \<and> (task_stuck now t \<and> (t_links t = [] \<or> (\<exists>l \<in> set (t_links t). \<not> link_terminal l)) \<longrightarrow>
      t_status (recover_task now t) = ''failed''
      \<and> t_links (recover_task now t) = map reset_link (t_links t)
      \<and> (\<forall>l \<in> set (t_links t).
            (l_status l \<in> {None, Some [], Some ''pending'', Some ''processing''}
               \<longrightarrow> l_status (reset_link l) = Some ''error'')
            \<and> (link_terminal l \<longrightarrow> reset_link l = l))
      \<and> ((\<forall>l \<in> set (t_links t).
              l_status l \<in> {None, Some ''pending'', Some ''processing'', Some ''done'', Some ''error''})
           \<longrightarrow> (\<forall>l \<in> set (t_links (recover_task now t)). link_terminal l)))
   \<and> (queue_item_stuck now q \<and> retry_or_zero q < MAX_CRON_RETRIES \<longrightarrow>
      q_status (recover_queue_item now q) = ''pending''
      \<and> q_retryCount (recover_queue_item now q) = Some (retry_or_zero q + 1)
      \<and> q_lockedAt (recover_queue_item now q) = None)
   \<and> (queue_item_stuck now q \<and> MAX_CRON_RETRIES \<le> retry_or_zero q \<longrightarrow>
      q_status (recover_queue_item now q) = ''failed''
      \<and> q_retryCount (recover_queue_item now q) = q_retryCount q)
   \<and> (task_stuck now t \<longrightarrow> recover_task now' (recover_task now t) = recover_task now t)
   \<and> (queue_item_stuck now q \<longrightarrow>
        recover_queue_item now' (recover_queue_item now q) = recover_queue_item now q)
   \<and> recoverStuckTasks now
        (fst (snd (recoverStuckTasks now mq wq ids db)))
        (fst (snd (snd (recoverStuckTasks now mq wq ids db)))) ids
        (snd (snd (snd (recoverStuckTasks now mq wq ids db))))
      = (0, snd (recoverStuckTasks now mq wq ids db))"
proof (intro conjI impI)
  assume a: "task_stuck now t \<and> t_links t \<noteq> [] \<and> (\<forall>l \<in> set (t_links t). link_terminal l)"
  then have at: "length (t_links t) > 0 \<and>
                            list_all (\<lambda>l. toLowerCase (or_empty (l_status l))
                                         \<in> set [''done'', ''success'', ''error'', ''failed'']) (t_links t)"
    unfolding saveResultToFirestore_allDone by auto
  have su: "list_all (\<lambda>l. toLowerCase (or_empty (l_status l)) \<in> set [''done'', ''success'']) (t_links t)
            = (\<forall>l \<in> set (t_links t). link_succeeded l)"
    by (simp add: list_all_iff link_succeeded_def Let_def)
  from a at show "t_links (recover_task now t) = t_links t"
    by (simp add: recover_task_def Let_def)
  from a at su show "t_status (recover_task now t)
          = (if \<forall>l \<in> set (t_links t). link_succeeded l then ''completed'' else ''failed'')"
    by (simp add: recover_task_def Let_def)
next
  assume a: "task_stuck now t \<and> (t_links t = [] \<or> (\<exists>l \<in> set (t_links t). \<not> link_terminal l))"
  then have nt: "\<not> (length (t_links t) > 0 \<and>
                            list_all (\<lambda>l. toLowerCase (or_empty (l_status l))
                                         \<in> set [''done'', ''success'', ''error'', ''failed'']) (t_links t))"
    unfolding saveResultToFirestore_allDone by auto
  from a nt show "t_status (recover_task now t) = ''failed''"
    by (auto simp: recover_task_def Let_def)
  from a nt show lk: "t_links (recover_task now t) = map reset_link (t_links t)"
    by (auto simp: recover_task_def Let_def)
  show "\<forall>l \<in> set (t_links t).
            (l_status l \<in> {None, Some [], Some ''pending'', Some ''processing''}
               \<longrightarrow> l_status (reset_link l) = Some ''error'')
            \<and> (link_terminal l \<longrightarrow> reset_link l = l)"
    using reset_link_forced reset_link_terminal by blast
next
  assume a: "task_stuck now t \<and> (t_links t = [] \<or> (\<exists>l \<in> set (t_links t). \<not> link_terminal l))"
    and dom: "\<forall>l \<in> set (t_links t).
              l_status l \<in> {None, Some ''pending'', Some ''processing'', Some ''done'', Some ''error''}"
  from a have nt: "\<not> (length (t_links t) > 0 \<and>
                            list_all (\<lambda>l. toLowerCase (or_empty (l_status l))
                                         \<in> set [''done'', ''success'', ''error'', ''failed'']) (t_links t))"
    unfolding saveResultToFirestore_allDone by auto
  from a nt have lk: "t_links (recover_task now t) = map reset_link (t_links t)"
    by (auto simp: recover_task_def Let_def)
  from dom show "\<forall>l \<in> set (t_links (recover_task now t)). link_terminal l"
    unfolding lk using reset_link_domain by auto
next
  assume "queue_item_stuck now q \<and> retry_or_zero q < MAX_CRON_RETRIES"
  then show "q_status (recover_queue_item now q) = ''pending''"
    and "q_retryCount (recover_queue_item now q) = Some (retry_or_zero q + 1)"
    and "q_lockedAt (recover_queue_item now q) = None"
    by (simp_all add: recover_queue_item_def Let_def)
next
  assume "queue_item_stuck now q \<and> MAX_CRON_RETRIES \<le> retry_or_zero q"
  then show "q_status (recover_queue_item now q) = ''failed''"
    and "q_retryCount (recover_queue_item now q) = q_retryCount q"
    by (simp_all add: recover_queue_item_def Let_def)
next
  assume "task_stuck now t"
  then show "recover_task now' (recover_task now t) = recover_task now t" by (rule recover_task_idem)
next
  assume "queue_item_stuck now q"
  then show "recover_queue_item now' (recover_queue_item now q) = recover_queue_item now q"
    by (rule recover_queue_item_idem)
next
  show "recoverStuckTasks now
        (fst (snd (recoverStuckTasks now mq wq ids db)))
        (fst (snd (snd (recoverStuckTasks now mq wq ids db)))) ids
        (snd (snd (snd (recoverStuckTasks now mq wq ids db))))
      = (0, snd (recoverStuckTasks now mq wq ids db))"
    by (rule recoverStuckTasks_twice)
qed

definition stuck_item :: "nat option \<Rightarrow> queue_item" where
  "stuck_item retryCount =
     \<lparr> q_url = ''https://page.example/m'', q_status = ''processing'', q_retryCount = retryCount,
       q_lockedAt = Some 0, q_updatedAt = None, q_createdAt = Some 0, q_taskId = Some ''T3'',
       q_error = None, q_lastError = None, q_failedAt = None, q_processedAt = None,
       q_lastRecoveredAt = None, q_lastPartialRunAt = None \<rparr>"

definition stuck_task :: "string \<Rightarrow> string \<Rightarrow> task" where
  "stuck_task st0 st1 =
     new_task ''https://page.example/m'' ''processing'' None 0
       [(queued_link 0 ''a'' ''https://hubcloud.foo/a'')\<lparr> l_status := Some st0 \<rparr>,
        (queued_link 1 ''b'' ''https://gdflix.dev/b'')\<lparr> l_status := Some st1 \<rparr>]"

lemmas recovery_eval = stuck_item_def stuck_task_def new_task_def queued_link_def task_stuck_def
  queue_item_stuck_def first_some_def STUCK_TASK_THRESHOLD_MS_def MAX_CRON_RETRIES_def
  retry_or_zero_def link_terminal_def link_succeeded_def or_empty_def Let_def

theorem stuck_recovery_witness:
  "task_stuck 700000 (stuck_task ''done'' ''error'')
   \<and> t_links (stuck_task ''done'' ''error'') \<noteq> []
   \<and> list_all link_terminal (t_links (stuck_task ''done'' ''error''))
   \<and> t_status (recover_task 700000 (stuck_task ''done'' ''error'')) = ''failed''
   \<and> task_stuck 700000 (stuck_task ''done'' ''pending'')
   \<and> (\<exists>l \<in> set (t_links (stuck_task ''done'' ''pending'')). \<not> link_terminal l)
   \<and> t_status (recover_task 700000 (stuck_task ''done'' ''pending'')) = ''failed''
   \<and> map l_status (t_links (recover_task 700000 (stuck_task ''done'' ''pending'')))
       = [Some ''done'', Some ''error'']
   \<and> queue_item_stuck 700000 (stuck_item None) \<and> retry_or_zero (stuck_item None) < MAX_CRON_RETRIES
   \<and> q_status (recover_queue_item 700000 (stuck_item None)) = ''pending''
   \<and> q_retryCount (recover_queue_item 700000 (stuck_item None)) = Some 1
   \<and> queue_item_stuck 700000 (stuck_item (Some 3)) \<and> MAX_CRON_RETRIES \<le> retry_or_zero (stuck_item (Some 3))
   \<and> q_status (recover_queue_item 700000 (stuck_item (Some 3))) = ''failed''
   \<and> recover_task 800000 (recover_task 700000 (stuck_task ''done'' ''pending''))
       = recover_task 700000 (stuck_task ''done'' ''pending'')
   \<and> recover_queue_item 800000 (recover_queue_item 700000 (stuck_item None))
       = recover_queue_item 700000 (stuck_item None)"
proof -
  have h1: "task_stuck 700000 (stuck_task ''done'' ''error'')
      \<and> t_links (stuck_task ''done'' ''error'') \<noteq> []
      \<and> (\<forall>l \<in> set (t_links (stuck_task ''done'' ''error'')). link_terminal l)"
    by (simp add: recovery_eval)
  have n1: "\<not> (\<forall>l \<in> set (t_links (stuck_task ''done'' ''error'')). link_succeeded l)"
    by (simp add: recovery_eval)
  note T1 = stuck_recovery [where now = 700000 and t = "stuck_task ''done'' ''error''",
      THEN conjunct1, THEN mp, OF h1, THEN conjunct2]
  have c1: "t_status (recover_task 700000 (stuck_task ''done'' ''error'')) = ''failed''"
    using T1 n1 by simp
  have h2: "task_stuck 700000 (stuck_task ''done'' ''pending'')
      \<and> (t_links (stuck_task ''done'' ''pending'') = []
          \<or> (\<exists>l \<in> set (t_links (stuck_task ''done'' ''pending'')). \<not> link_terminal l))"
    by (simp add: recovery_eval)
  note T2 = stuck_recovery [where now = 700000 and t = "stuck_task ''done'' ''pending''",
      THEN conjunct2, THEN conjunct1, THEN mp, OF h2]
  have c2: "map l_status (t_links (recover_task 700000 (stuck_task ''done'' ''pending'')))
       = [Some ''done'', Some ''error'']"
    unfolding T2 [THEN conjunct2, THEN conjunct1]
    by (simp add: recovery_eval reset_link_def)
  have h3: "queue_item_stuck 700000 (stuck_item None) \<and> retry_or_zero (stuck_item None) < MAX_CRON_RETRIES"
    by (simp add: recovery_eval)
  note T3 = stuck_recovery [where now = 700000 and q = "stuck_item None",
      THEN conjunct2, THEN conjunct2, THEN conjunct1, THEN mp, OF h3]
  have r0: "retry_or_zero (stuck_item None) + 1 = 1" by (simp add: recovery_eval)
  have h4: "queue_item_stuck 700000 (stuck_item (Some 3)) \<and> MAX_CRON_RETRIES \<le> retry_or_zero (stuck_item (Some 3))"
    by (simp add: recovery_eval)
  note T4 = stuck_recovery [where now = 700000 and q = "stuck_item (Some 3)",
      THEN conjunct2, THEN conjunct2, THEN conjunct2, THEN conjunct1, THEN mp, OF h4]
  note T5 = stuck_recovery [where now = 700000 and now' = 800000 and t = "stuck_task ''done'' ''pending''",
      THEN conjunct2, THEN conjunct2, THEN conjunct2, THEN conjunct2, THEN conjunct1, THEN mp,
      OF h2 [THEN conjunct1]]
  note T6 = stuck_recovery [where now = 700000 and now' = 800000 and q = "stuck_item None",
      THEN conjunct2, THEN conjunct2, THEN conjunct2, THEN conjunct2, THEN conjunct2,
      THEN conjunct1, THEN mp, OF h3 [THEN conjunct1]]
  have h2': "\<exists>l \<in> set (t_links (stuck_task ''done'' ''pending'')). \<not> link_terminal l"
    by (simp add: recovery_eval)
  show ?thesis
    using h1 c1 h2 h2' T2 [THEN conjunct1] c2 h3 T3 [THEN conjunct1] T3 [THEN conjunct2, THEN conjunct1]
      h4 T4 [THEN conjunct1] T5 T6
    unfolding r0 by (simp add: list_all_iff)
qed

text \<open>
  The claim as first stated settles a stuck queue item from link states when every link is
  terminal.  The code does not: a queue item stuck in \<open>processing\<close> whose task has only
  \<open>done\<close> links is requeued as \<open>pending\<close> with its retry count raised, not finalized.
\<close>

theorem stuck_queue_item_requeued_counterexample:
  "list_all (\<lambda>l. link_terminal l \<and> link_succeeded l) (t_links (stuck_task ''done'' ''done''))
   \<and> q_taskId (stuck_item None) = Some ''T3''
   \<and> recoverStuckTasks 700000 [(''Q1'', stuck_item None)] [] [''T3'']
        [''T3'' \<mapsto> (stuck_task ''done'' ''done'')\<lparr> t_status := ''completed'' \<rparr>]
      = (1,
         [(''Q1'', (stuck_item None)\<lparr> q_status := ''pending'', q_lockedAt := None,
                     q_retryCount := Some 1, q_lastRecoveredAt := Some 700000 \<rparr>)],
         [],
         (\<lambda>i. map_option (recover_task 700000)
                ([''T3'' \<mapsto> (stuck_task ''done'' ''done'')\<lparr> t_status := ''completed'' \<rparr>] i)))
   \<and> recover_task 700000 ((stuck_task ''done'' ''done'')\<lparr> t_status := ''completed'' \<rparr>)
      = (stuck_task ''done'' ''done'')\<lparr> t_status := ''completed'' \<rparr>"
  by (simp add: recoverStuckTasks_def recover_queue_item_def recover_task_def recovery_eval)

section \<open>The final status of the claimed queue item\<close>


















section \<open>The consumer: live stream, shield and poll\<close>

text \<open>
  An entry of the shield \<open>completedLinksRef\<close>: what the live stream last reported for a
  link when it reached \<open>done\<close> or \<open>error\<close>.  The shield of a task maps link numbers to
  entries.
\<close>

record shield_entry =
  s_status :: string
  s_finalLink :: "string option"
  s_best_button_name :: "string option"
  s_logs :: "log list"

type_synonym shield = "nat \<rightharpoonup> shield_entry"

text \<open>One parsed line of the stream: \<open>{id, msg?, type?, final?, status?, best_button_name?}\<close>.\<close>

record stream_event =
  ev_id :: nat
  ev_msg :: "string option"
  ev_type :: "string option"
  ev_final :: "string option"
  ev_status :: "string option"
  ev_best_button_name :: "string option"

text \<open>
  The mutable objects of \<open>startLiveStream\<close> that its line handler reads and writes:
  \<open>currentLogs\<close>, \<open>currentLinks\<close>, \<open>currentStatus\<close> and the task's shield.
\<close>

record stream_state =
  ss_logs :: "nat \<Rightarrow> log list"
  ss_links :: "nat \<rightharpoonup> string"
  ss_status :: "nat \<rightharpoonup> string"
  ss_shield :: shield

text \<open>\<open>a || b\<close> on optional strings: the empty string is falsy.\<close>

definition truthy_or :: "string option \<Rightarrow> string option \<Rightarrow> string option" where
  "truthy_or a b = (if or_empty a \<noteq> [] then a else b)"

definition on_stream_event :: "stream_event \<Rightarrow> stream_state \<Rightarrow> stream_state" where
  "on_stream_event data st =
     (let lid = ev_id data;
          st1 = (if or_empty (ev_msg data) \<noteq> [] \<and> or_empty (ev_type data) \<noteq> []
                 then st\<lparr> ss_logs := (ss_logs st)(lid := ss_logs st lid
                              @ [(or_empty (ev_msg data), or_empty (ev_type data))]) \<rparr>
                 else st);
          st2 = (if or_empty (ev_final data) \<noteq> []
                 then st1\<lparr> ss_links := (ss_links st1)(lid \<mapsto> or_empty (ev_final data)) \<rparr>
                 else st1);
          st3 = (if ev_status data = Some ''done'' \<or> ev_status data = Some ''error''
                 then st2\<lparr> ss_status := (ss_status st2)(lid \<mapsto> or_empty (ev_status data)),
                           ss_shield := (ss_shield st2)(lid \<mapsto>
                              \<lparr> s_status = or_empty (ev_status data),
                                s_finalLink = truthy_or (ev_final data) (ss_links st2 lid),
                                s_best_button_name = ev_best_button_name data,
                                s_logs = ss_logs st2 lid \<rparr>) \<rparr>
                 else st2)
      in if ev_status data = Some ''finished''
            \<and> ss_status st3 lid \<noteq> Some ''done'' \<and> ss_status st3 lid \<noteq> Some ''error''
         then st3\<lparr> ss_shield := (ss_shield st3)(lid \<mapsto>
                      \<lparr> s_status = ''error'', s_finalLink = None, s_best_button_name = None,
                        s_logs = ss_logs st3 lid \<rparr>) \<rparr>
         else st3)"

text \<open>The callback of \<open>(serverTask.links || []).map\<close> in \<open>fetchTasks\<close>.\<close>

definition merge_link :: "bool \<Rightarrow> shield \<Rightarrow> nat \<Rightarrow> link \<Rightarrow> link" where
  "merge_link isRecentlyEnded shieldData idx fbLink =
     (case shieldData idx of
        None \<Rightarrow> fbLink
      | Some protectedLink \<Rightarrow>
          (let fbStatus = toLowerCase (or_empty (l_status fbLink));
               isFbPending = (fbStatus = ''pending'' \<or> fbStatus = ''processing'' \<or> fbStatus = [])
           in if isFbPending \<or> isRecentlyEnded
              then fbLink\<lparr> l_status := Some (s_status protectedLink),
                           l_finalLink := truthy_or (s_finalLink protectedLink) (l_finalLink fbLink),
                           l_best_button_name :=
                             truthy_or (s_best_button_name protectedLink) (l_best_button_name fbLink),
                           l_logs := s_logs protectedLink \<rparr>
              else fbLink))"

text \<open>
  The state update of \<open>fetchTasks\<close>: \<open>streaming\<close> is \<open>streamStartedRef\<close>, \<open>endedAt\<close> is
  \<open>streamEndedAtRef\<close>, \<open>shields\<close> is \<open>completedLinksRef\<close> (a task without a shield has the
  empty one), \<open>prevTasks\<close> the tasks held and \<open>data\<close> the polled ones, each with its id.
\<close>

definition merge_task ::
  "string set \<Rightarrow> (string \<rightharpoonup> int) \<Rightarrow> (string \<Rightarrow> shield) \<Rightarrow> int \<Rightarrow> (string \<times> task) list
     \<Rightarrow> string \<times> task \<Rightarrow> string \<times> task" where
  "merge_task streaming endedAt shields now prevTasks serverTask =
     (case (if fst serverTask \<in> streaming then find (\<lambda>t. fst t = fst serverTask) prevTasks else None) of
        Some localTask \<Rightarrow> localTask
      | None \<Rightarrow>
          (let isRecentlyEnded = (case endedAt (fst serverTask) of
                                    None \<Rightarrow> False
                                  | Some e \<Rightarrow> e \<noteq> 0 \<and> now - e < 15000);
               shieldData = shields (fst serverTask);
               mergedLinks = map (\<lambda>(idx, fbLink). merge_link isRecentlyEnded shieldData idx fbLink)
                               (enumerate 0 (t_links (snd serverTask)));
               allDone = (length mergedLinks > 0 \<and>
                          list_all (\<lambda>l. toLowerCase (or_empty (l_status l))
                                       \<in> set [''done'', ''success'', ''error'', ''failed'']) mergedLinks);
               anySuccess = list_ex (\<lambda>l. toLowerCase (or_empty (l_status l))
                                       \<in> set [''done'', ''success'']) mergedLinks
           in (fst serverTask,
               (snd serverTask)\<lparr> t_status := (if allDone then (if anySuccess then ''completed'' else ''failed'')
                                                else if isRecentlyEnded then ''processing''
                                                else t_status (snd serverTask)),
                                  t_links := mergedLinks \<rparr>)))"

definition fetchTasks_update ::
  "string set \<Rightarrow> (string \<rightharpoonup> int) \<Rightarrow> (string \<Rightarrow> shield) \<Rightarrow> int \<Rightarrow> (string \<times> task) list
     \<Rightarrow> (string \<times> task) list \<Rightarrow> (string \<times> task) list" where
  "fetchTasks_update streaming endedAt shields now prevTasks data =
     map (merge_task streaming endedAt shields now prevTasks) data"

definition shield_terminal :: "shield \<Rightarrow> bool" where
  "shield_terminal sh = (\<forall>i p. sh i = Some p \<longrightarrow> s_status p = ''done'' \<or> s_status p = ''error'')"

lemma on_stream_event_terminal:
  "shield_terminal (ss_shield st) \<Longrightarrow> shield_terminal (ss_shield (on_stream_event data st))"
  by (auto simp: shield_terminal_def on_stream_event_def Let_def or_empty_def)

lemma fold_stream_terminal:
  "shield_terminal (ss_shield st) \<Longrightarrow> shield_terminal (ss_shield (fold on_stream_event evs st))"
  by (induction evs arbitrary: st) (simp_all add: on_stream_event_terminal)

lemma merge_link_status:
  assumes "shieldData idx = Some p"
  shows "l_status (merge_link recent shieldData idx fbLink)
         = (if toLowerCase (or_empty (l_status fbLink)) \<in> {''pending'', ''processing'', []} \<or> recent
            then Some (s_status p) else l_status fbLink)"
  using assms by (simp add: merge_link_def Let_def)

lemma merged_links_nth:
  assumes "idx < length ls"
  shows "map (\<lambda>(idx, fbLink). merge_link recent sh idx fbLink) (enumerate 0 ls) ! idx
         = merge_link recent sh idx (ls ! idx)"
  using assms by (simp add: nth_enumerate_eq)

lemma merge_task_links:
  assumes "fst sv \<notin> streaming \<or> find (\<lambda>t. fst t = fst sv) prevTasks = None"
  shows "t_links (snd (merge_task streaming endedAt shields now prevTasks sv))
         = map (\<lambda>(idx, fbLink).
                  merge_link (case endedAt (fst sv) of None \<Rightarrow> False
                                                     | Some e \<Rightarrow> e \<noteq> 0 \<and> now - e < 15000)
                    (shields (fst sv)) idx fbLink)
             (enumerate 0 (t_links (snd sv)))"
  using assms by (auto simp: merge_task_def Let_def)

lemma merge_task_shielded:
  "(fst sv \<notin> streaming \<or> find (\<lambda>t. fst t = fst sv) prevTasks = None)
        \<and> idx < length (t_links (snd sv)) \<and> shields (fst sv) idx = Some p
        \<and> (s_status p = ''done'' \<or> s_status p = ''error'')
      \<longrightarrow> toLowerCase (or_empty (l_status
               (t_links (snd (merge_task streaming endedAt shields now prevTasks sv)) ! idx)))
             \<notin> {''pending'', ''processing'', []}
          \<and> (toLowerCase (or_empty (l_status (t_links (snd sv) ! idx))) \<in> {''pending'', ''processing'', []}
               \<longrightarrow> l_status (t_links (snd (merge_task streaming endedAt shields now prevTasks sv)) ! idx)
                     = Some (s_status p))
          \<and> ((\<exists>e. endedAt (fst sv) = Some e \<and> e \<noteq> 0 \<and> now - e < 15000)
               \<longrightarrow> l_status (t_links (snd (merge_task streaming endedAt shields now prevTasks sv)) ! idx)
                     = Some (s_status p))"
proof (rule impI)
  assume a: "(fst sv \<notin> streaming \<or> find (\<lambda>t. fst t = fst sv) prevTasks = None)
        \<and> idx < length (t_links (snd sv)) \<and> shields (fst sv) idx = Some p
        \<and> (s_status p = ''done'' \<or> s_status p = ''error'')"
  let ?recent = "case endedAt (fst sv) of None \<Rightarrow> False | Some e \<Rightarrow> e \<noteq> 0 \<and> now - e < 15000"
  let ?m = "t_links (snd (merge_task streaming endedAt shields now prevTasks sv)) ! idx"
  from a have m: "?m = merge_link ?recent (shields (fst sv)) idx (t_links (snd sv) ! idx)"
    by (simp add: merge_task_links nth_enumerate_eq)
  from a have sp: "shields (fst sv) idx = Some p" by simp
  note ms = merge_link_status [where shieldData = "shields (fst sv)" and idx = idx and p = p
      and recent = ?recent and fbLink = "t_links (snd sv) ! idx", OF sp, folded m]
  from a have lower: "toLowerCase (s_status p) = ''done'' \<or> toLowerCase (s_status p) = ''error''"
    by auto
  show "toLowerCase (or_empty (l_status ?m)) \<notin> {''pending'', ''processing'', []}
          \<and> (toLowerCase (or_empty (l_status (t_links (snd sv) ! idx))) \<in> {''pending'', ''processing'', []}
               \<longrightarrow> l_status ?m = Some (s_status p))
          \<and> ((\<exists>e. endedAt (fst sv) = Some e \<and> e \<noteq> 0 \<and> now - e < 15000)
               \<longrightarrow> l_status ?m = Some (s_status p))"
  proof (intro conjI)
    show "toLowerCase (or_empty (l_status ?m)) \<notin> {''pending'', ''processing'', []}"
      using lower unfolding ms by (auto simp: or_empty_def)
    show "toLowerCase (or_empty (l_status (t_links (snd sv) ! idx))) \<in> {''pending'', ''processing'', []}
               \<longrightarrow> l_status ?m = Some (s_status p)"
      unfolding ms by simp
    show "(\<exists>e. endedAt (fst sv) = Some e \<and> e \<noteq> 0 \<and> now - e < 15000) \<longrightarrow> l_status ?m = Some (s_status p)"
      unfolding ms by auto
  qed
qed

text \<open>
  C9.  The shield holds only \<open>done\<close> and \<open>error\<close>: a stream line with one of these
  statuses records it for its link, and no line makes the shield hold anything else.  When
  a polled task is merged (its stream is not running, or the consumer holds no copy of
  it), a link that has a shield entry never shows \<open>pending\<close>, \<open>processing\<close> or an empty
  status: where the polled status is one of these the shield's status is shown, and for
  15s after the task's stream ended the shield's status is shown whatever was polled.  While
  the task's stream is running the consumer keeps the copy it holds and drops the polled
  one.
\<close>

theorem poll_keeps_shielded_terminal:
  "(shield_terminal (ss_shield st) \<longrightarrow> shield_terminal (ss_shield (fold on_stream_event evs st)))
   \<and> (ev_status ev = Some ''done'' \<or> ev_status ev = Some ''error'' \<longrightarrow>
        (\<exists>p. ss_shield (on_stream_event ev st) (ev_id ev) = Some p
             \<and> Some (s_status p) = ev_status ev))
   \<and> ((fst sv \<notin> streaming \<or> find (\<lambda>t. fst t = fst sv) prevTasks = None)
        \<and> idx < length (t_links (snd sv)) \<and> shields (fst sv) idx = Some p
        \<and> (s_status p = ''done'' \<or> s_status p = ''error'')
      \<longrightarrow> toLowerCase (or_empty (l_status
               (t_links (snd (merge_task streaming endedAt shields now prevTasks sv)) ! idx)))
             \<notin> {''pending'', ''processing'', []}
          \<and> (toLowerCase (or_empty (l_status (t_links (snd sv) ! idx))) \<in> {''pending'', ''processing'', []}
               \<longrightarrow> l_status (t_links (snd (merge_task streaming endedAt shields now prevTasks sv)) ! idx)
                     = Some (s_status p))
          \<and> ((\<exists>e. endedAt (fst sv) = Some e \<and> e \<noteq> 0 \<and> now - e < 15000)
               \<longrightarrow> l_status (t_links (snd (merge_task streaming endedAt shields now prevTasks sv)) ! idx)
                     = Some (s_status p)))
   \<and> (fst sv \<in> streaming \<and> find (\<lambda>t. fst t = fst sv) prevTasks = Some localTask
      \<longrightarrow> merge_task streaming endedAt shields now prevTasks sv = localTask)"
proof (intro conjI)
  show "shield_terminal (ss_shield st) \<longrightarrow> shield_terminal (ss_shield (fold on_stream_event evs st))"
    by (simp add: fold_stream_terminal)
  show "ev_status ev = Some ''done'' \<or> ev_status ev = Some ''error'' \<longrightarrow>
        (\<exists>p. ss_shield (on_stream_event ev st) (ev_id ev) = Some p
             \<and> Some (s_status p) = ev_status ev)"
    by (auto simp: on_stream_event_def Let_def or_empty_def)
  show "fst sv \<in> streaming \<and> find (\<lambda>t. fst t = fst sv) prevTasks = Some localTask
      \<longrightarrow> merge_task streaming endedAt shields now prevTasks sv = localTask"
    by (simp add: merge_task_def)
qed (rule merge_task_shielded)

definition done_event :: stream_event where
  "done_event = \<lparr> ev_id = 1, ev_msg = None, ev_type = None,
                   ev_final = Some ''https://cdn.example/b.mkv'', ev_status = Some ''done'',
                   ev_best_button_name = None \<rparr>"

definition stream_start :: stream_state where
  "stream_start = \<lparr> ss_logs = (\<lambda>i. []), ss_links = Map.empty, ss_status = Map.empty,
                     ss_shield = Map.empty \<rparr>"

definition done_shield :: shield_entry where
  "done_shield = \<lparr> s_status = ''done'', s_finalLink = Some ''https://cdn.example/b.mkv'',
                    s_best_button_name = None, s_logs = [] \<rparr>"

theorem poll_keeps_shielded_terminal_witness:
  "shield_terminal (ss_shield stream_start)
   \<and> shield_terminal (ss_shield (fold on_stream_event [done_event] stream_start))
   \<and> ev_status done_event = Some ''done''
   \<and> (\<exists>p. ss_shield (on_stream_event done_event stream_start) (ev_id done_event) = Some p
          \<and> Some (s_status p) = ev_status done_event)
   \<and> fst (''T1'', demo_task) \<notin> ({} :: string set)
   \<and> (1::nat) < length (t_links (snd (''T1'', demo_task)))
   \<and> (\<lambda>t. [1 \<mapsto> done_shield]) (fst (''T1'', demo_task)) 1 = Some done_shield
   \<and> s_status done_shield = ''done''
   \<and> toLowerCase (or_empty (l_status (t_links (snd (''T1'', demo_task)) ! 1))) \<in> {''pending'', ''processing'', []}
   \<and> l_status (t_links (snd (merge_task {} Map.empty (\<lambda>t. [1 \<mapsto> done_shield]) 5000 []
                                 (''T1'', demo_task))) ! 1) = Some (s_status done_shield)
   \<and> (\<exists>e. [''T1'' \<mapsto> 1000] (fst (''T1'', demo_task)) = Some e \<and> e \<noteq> 0 \<and> (5000::int) - e < 15000)
   \<and> l_status (t_links (snd (merge_task {} [''T1'' \<mapsto> 1000] (\<lambda>t. [1 \<mapsto> done_shield]) 5000 []
                                 (''T1'', demo_task))) ! 1) = Some (s_status done_shield)
   \<and> fst (''T1'', demo_task) \<in> {''T1''}
   \<and> find (\<lambda>t. fst t = fst (''T1'', demo_task)) [(''T1'', demo_task)] = Some (''T1'', demo_task)
   \<and> merge_task {''T1''} Map.empty (\<lambda>t. [1 \<mapsto> done_shield]) 5000 [(''T1'', demo_task)]
        (''T1'', demo_task\<lparr> t_status := ''failed'' \<rparr>) = (''T1'', demo_task)"
proof -
  have h1: "shield_terminal (ss_shield stream_start)"
    by (simp add: shield_terminal_def stream_start_def)
  note c1 = poll_keeps_shielded_terminal [where st = stream_start and evs = "[done_event]",
      THEN conjunct1, THEN mp, OF h1]
  have h2: "ev_status done_event = Some ''done'' \<or> ev_status done_event = Some ''error''"
    by (simp add: done_event_def)
  note c2 = poll_keeps_shielded_terminal [where ev = done_event and st = stream_start,
      THEN conjunct2, THEN conjunct1, THEN mp, OF h2]
  have h3: "(fst (''T1'', demo_task) \<notin> ({} :: string set)
              \<or> find (\<lambda>t. fst t = fst (''T1'', demo_task)) [] = None)
        \<and> (1::nat) < length (t_links (snd (''T1'', demo_task)))
        \<and> (\<lambda>t. [1 \<mapsto> done_shield]) (fst (''T1'', demo_task)) 1 = Some done_shield
        \<and> (s_status done_shield = ''done'' \<or> s_status done_shield = ''error'')"
    by (simp add: demo_task_def new_task_def done_shield_def)
  have pend: "toLowerCase (or_empty (l_status (t_links (snd (''T1'', demo_task)) ! 1)))
                \<in> {''pending'', ''processing'', []}"
    by (simp add: demo_task_def new_task_def queued_link_def or_empty_def)
  note c3 = poll_keeps_shielded_terminal [where sv = "(''T1'', demo_task)" and streaming = "{}"
      and prevTasks = "[]" and idx = 1 and shields = "\<lambda>t. [1 \<mapsto> done_shield]" and p = done_shield
      and endedAt = Map.empty and now = 5000,
      THEN conjunct2, THEN conjunct2, THEN conjunct1, THEN mp, OF h3,
      THEN conjunct2, THEN conjunct1, THEN mp, OF pend]
  have rec: "\<exists>e. [''T1'' \<mapsto> 1000] (fst (''T1'', demo_task)) = Some e \<and> e \<noteq> 0 \<and> (5000::int) - e < 15000"
    by simp
  note c4 = poll_keeps_shielded_terminal [where sv = "(''T1'', demo_task)" and streaming = "{}"
      and prevTasks = "[]" and idx = 1 and shields = "\<lambda>t. [1 \<mapsto> done_shield]" and p = done_shield
      and endedAt = "[''T1'' \<mapsto> 1000]" and now = 5000,
      THEN conjunct2, THEN conjunct2, THEN conjunct1, THEN mp, OF h3,
      THEN conjunct2, THEN conjunct2, THEN mp, OF rec]
  have h5: "fst (''T1'', demo_task\<lparr> t_status := ''failed'' \<rparr>) \<in> {''T1''}
      \<and> find (\<lambda>t. fst t = fst (''T1'', demo_task\<lparr> t_status := ''failed'' \<rparr>)) [(''T1'', demo_task)]
          = Some (''T1'', demo_task)"
    by simp
  note c5 = poll_keeps_shielded_terminal [where sv = "(''T1'', demo_task\<lparr> t_status := ''failed'' \<rparr>)"
      and streaming = "{''T1''}" and prevTasks = "[(''T1'', demo_task)]" and localTask = "(''T1'', demo_task)"
      and shields = "\<lambda>t. [1 \<mapsto> done_shield]" and endedAt = Map.empty and now = 5000,
      THEN conjunct2, THEN conjunct2, THEN conjunct2, THEN mp, OF h5]
  show ?thesis
    using h1 c1 h2 c2 h3 pend c3 rec c4 h5 c5 by (simp add: done_event_def done_shield_def)
qed

section \<open>Intake: the dashboard's submit and the task endpoint\<close>

text \<open>
  \<open>POST /api/tasks\<close>.  The task collection is the list of its documents with their ids.
  The duplicate query returns at most five documents with the submitted url; the newest by
  \<open>createdAt\<close> is the existing task (a missing \<open>createdAt\<close> sorts last).  Page metadata
  and preview, merged in verbatim, are left out.
\<close>

definition later_created :: "task \<Rightarrow> task \<Rightarrow> bool" where
  "later_created a b =
     (case t_createdAt a of
        None \<Rightarrow> False
      | Some x \<Rightarrow> (case t_createdAt b of None \<Rightarrow> True | Some y \<Rightarrow> y < x))"

fun newest_first :: "(string \<times> task) list \<Rightarrow> (string \<times> task) option" where
  "newest_first [] = None"
| "newest_first (d # ds) =
     (case newest_first ds of
        None \<Rightarrow> Some d
      | Some e \<Rightarrow> if later_created (snd e) (snd d) then Some e else Some d)"

definition existing_task :: "string \<Rightarrow> (string \<times> task) list \<Rightarrow> (string \<times> task) option" where
  "existing_task trimmedUrl docs = newest_first (take 5 (filter (\<lambda>d. t_url (snd d) = trimmedUrl) docs))"


text \<open>Step 4: the links of the existing task with the failed ones reset, then the new links.\<close>

definition mergedLinks :: "link list \<Rightarrow> (string \<times> string) list \<Rightarrow> link list" where
  "mergedLinks existingLinks links =
     (let updatedExisting =
            map (\<lambda>l. if l_status l \<in> set [Some ''error'', Some ''failed'']
                      then l\<lparr> l_status := Some ''pending'', l_logs := [(''Retrying...'', ''info'')] \<rparr>
                      else l) existingLinks;
          trulyNewLinks = filter (\<lambda>(name, url). url \<notin> set (map l_link existingLinks)) links;
          maxExistingId = (if existingLinks = [] then - 1 else Max (set (map l_id existingLinks)));
          newLinksWithIds =
            map (\<lambda>(i, (name, url)). (queued_link (maxExistingId + 1 + int i) name url)\<lparr> l_logs := [] \<rparr>)
              (enumerate 0 trulyNewLinks)
      in updatedExisting @ newLinksWithIds)"















section \<open>Submitting a url\<close>




lemma newest_first_none: "(newest_first ds = None) = (ds = [])"
  by (cases ds) (auto split: option.splits)


lemma existing_task_none:
  "(existing_task u docs = None) = (\<forall>d \<in> set docs. t_url (snd d) \<noteq> u)"
  unfolding existing_task_def newest_first_none
  by (auto simp: filter_empty_conv)











end
